theory Spec2Isabelle
  imports Complex_Main
begin

section \<open>Python values, exceptions and tables\<close>

text \<open>
  The class \<open>optimization\<close> of \<open>src/optimization.py\<close> is embedded method by method.
  An exception is a value of \<open>error\<close>; a method that can raise after it has changed
  attributes returns its outcome together with the state it leaves behind.
\<close>

datatype error =
    KeyError "string list"
  | ValueError
  | AttributeError string
  | UnboundLocalError string
  | IndexError
  | FileNotFoundError string
  | LibraryError string

datatype pval = PNone | PInt int | PReal real | PStr string

text \<open>
  A pandas DataFrame, column by column and in column order. The row index is left out:
  every frame the code builds reuses the index of the frame it came from. A cell is the
  real number that its binary64 value stands for; NaN and the infinities are left out.
\<close>

type_synonym table = "(string \<times> real list) list"

definition columns :: "table \<Rightarrow> string list" where
  "columns df = map fst df"

definition column :: "table \<Rightarrow> string \<Rightarrow> real list" where
  "column df c = (case map_of df c of Some xs \<Rightarrow> xs | None \<Rightarrow> [])"

text \<open>\<open>df[cols]\<close> with a list of labels: pandas raises KeyError naming the missing labels.\<close>

definition getitem_cols :: "table \<Rightarrow> string list \<Rightarrow> error + table" where
  "getitem_cols df cols =
     (let missing = filter (\<lambda>c. c \<notin> set (columns df)) cols
      in if missing = [] then Inr (map (\<lambda>c. (c, column df c)) cols)
         else Inl (KeyError missing))"

text \<open>\<open>df[c]\<close> with one label.\<close>

definition getitem_col :: "table \<Rightarrow> string \<Rightarrow> error + real list" where
  "getitem_col df c =
     (if c \<in> set (columns df) then Inr (column df c) else Inl (KeyError [c]))"

text \<open>\<open>df[cols] = new\<close> for a frame \<open>new\<close> whose columns are \<open>cols\<close>, all present in \<open>df\<close>.\<close>

definition setitem_cols :: "table \<Rightarrow> table \<Rightarrow> table" where
  "setitem_cols df new =
     map (\<lambda>(c, xs). (c, case map_of new c of Some ys \<Rightarrow> ys | None \<Rightarrow> xs)) df"

text \<open>\<open>.values\<close> (the matrix, column by column) and \<open>pd.DataFrame(values, columns=...)\<close>.\<close>

definition values_of :: "table \<Rightarrow> real list list" where
  "values_of df = map snd df"

definition DataFrame :: "real list list \<Rightarrow> string list \<Rightarrow> table" where
  "DataFrame vals cols = zip cols vals"

section \<open>The min-max scaler\<close>

text \<open>
  scikit-learn's \<open>MinMaxScaler(feature_range=(0, 1))\<close> by its documented formulas:
  per column \<open>scale_ = (1 - 0) / (data_max_ - data_min_)\<close>, a zero range counting as 1,
  \<open>min_ = 0 - data_min_ * scale_\<close>, and \<open>transform\<close> maps \<open>x\<close> to \<open>x * scale_ + min_\<close>
  without clipping (\<open>clip\<close> is left at its default). An array with no row or no column
  is refused with ValueError.

  NumPy computes each of these operations in binary64: the result of an operation is
  the exact result rounded. The rounding is the parameter \<open>fl\<close> of the definitions
  below, applied once for each operation of the formulas, in their order. Taking a
  minimum or a maximum does not round.
\<close>

fun col_min :: "real list \<Rightarrow> real" where
  "col_min [] = 0"
| "col_min (x # xs) = fold min xs x"

fun col_max :: "real list \<Rightarrow> real" where
  "col_max [] = 0"
| "col_max (x # xs) = fold max xs x"

definition handle_zeros_in_scale :: "real \<Rightarrow> real" where
  "handle_zeros_in_scale r = (if r = 0 then 1 else r)"

definition col_scale :: "(real \<Rightarrow> real) \<Rightarrow> real list \<Rightarrow> real" where
  "col_scale fl xs = fl ((1 - 0) / handle_zeros_in_scale (fl (col_max xs - col_min xs)))"

definition col_offset :: "(real \<Rightarrow> real) \<Rightarrow> real list \<Rightarrow> real" where
  "col_offset fl xs = fl (0 - fl (col_min xs * col_scale fl xs))"

record minmax =
  scale_attr :: "real list"
  min_attr :: "real list"

definition empty_array :: "real list list \<Rightarrow> bool" where
  "empty_array X = (case X of [] \<Rightarrow> True | c # _ \<Rightarrow> c = [])"

definition fit_scaler :: "(real \<Rightarrow> real) \<Rightarrow> real list list \<Rightarrow> error + minmax" where
  "fit_scaler fl X =
     (if empty_array X then Inl ValueError
      else Inr \<lparr>scale_attr = map (col_scale fl) X, min_attr = map (col_offset fl) X\<rparr>)"

definition transform :: "(real \<Rightarrow> real) \<Rightarrow> minmax \<Rightarrow> real list list \<Rightarrow> error + real list list" where
  "transform fl sc X =
     (if empty_array X \<or> length X \<noteq> length (scale_attr sc) then Inl ValueError
      else Inr (map (\<lambda>(col, a, b). map (\<lambda>x. fl (fl (x * a) + b)) col)
                  (zip X (zip (scale_attr sc) (min_attr sc)))))"

definition fit_transform ::
  "(real \<Rightarrow> real) \<Rightarrow> real list list \<Rightarrow> error + minmax \<times> real list list"
where
  "fit_transform fl X =
     (case fit_scaler fl X of
        Inl e \<Rightarrow> Inl e
      | Inr sc \<Rightarrow> (case transform fl sc X of Inl e \<Rightarrow> Inl e | Inr Y \<Rightarrow> Inr (sc, Y)))"

text \<open>What the scaler fitted on the column \<open>col\<close> makes of a value.\<close>

definition scale_value :: "(real \<Rightarrow> real) \<Rightarrow> real list \<Rightarrow> real \<Rightarrow> real" where
  "scale_value fl col x = fl (fl (x * col_scale fl col) + col_offset fl col)"


definition exact :: "real \<Rightarrow> real" where
  "exact x = x"

section \<open>Estimators and the object's attributes\<close>

datatype ctor = LGBMClassifier | LGBMRegressor | XGBClassifier | XGBRegressor | External string

text \<open>
  An estimator object: the constructor that built it, the parameters that were passed to
  it or set on it since (a parameter that is not in the map is at its library default),
  and the data it was fitted on. LightGBM's and XGBoost's \<open>set_params\<close> both accept any
  name and store the value under it.
\<close>

record estimator_obj =
  ctor_of :: ctor
  params :: "string \<rightharpoonup> pval"
  fitted :: "(table \<times> real list) option"

definition set_params :: "estimator_obj \<Rightarrow> (string \<times> pval) list \<Rightarrow> estimator_obj" where
  "set_params e kvs = e\<lparr>params := fold (\<lambda>(k, v) m. m(k \<mapsto> v)) kvs (params e)\<rparr>"

datatype pyref = PyNone | Obj nat

datatype dimension =
    Real_dim real real string string
  | Integer_dim int int string

fun dim_name :: "dimension \<Rightarrow> string" where
  "dim_name (Real_dim lo hi name prior) = name"
| "dim_name (Integer_dim lo hi name) = name"

datatype minimizer = Dummy_minimize | Gp_minimize | Gbrt_minimize | Forest_minimize

text \<open>
  The result object of a scikit-optimize minimizer: \<open>x\<close>, \<open>fun\<close>, \<open>x_iters\<close> and
  \<open>func_vals\<close> (prefixed here, since \<open>x\<close> is every other variable's name).
\<close>

record opt_result =
  res_x :: "pval list"
  res_fun :: real
  res_x_iters :: "pval list list"
  res_func_vals :: "real list"

datatype pickled = Pickled_function minimizer | Pickled_result opt_result

text \<open>One call of \<open>cross_val_score\<close>, with the estimator as it was when the call was made.\<close>

record cv_call =
  cv_estimator :: estimator_obj
  cv_X :: table
  cv_y :: "real list"
  cv :: nat
  n_jobs :: int
  scoring :: string

text \<open>
  The attributes of \<open>self\<close>. An attribute that a method binds later is an option, None
  until then (reading it raises AttributeError). \<open>estimator\<close> and \<open>model\<close> are references
  into \<open>heap\<close>: \<open>train_model\<close> makes them the same object. \<open>files\<close> is what \<open>dump\<close> has
  written and \<open>cv_calls\<close> the calls made to the scorer, oldest first; both belong to the
  world around the object and are kept here so that the methods can be run.
\<close>

record state =
  path_to_save :: string
  sample_train :: table
  sample_test :: table
  RFE_features :: "string list"
  target :: string
  problem :: string
  estimator :: pyref
  boosting_method :: "string option"
  space :: "dimension list option"
  hyperparameters :: "string list option"
  optimization_method :: "string option"
  opt :: "opt_result option"
  values_attr :: "pval list option"
  model :: "pyref option"
  heap :: "nat \<Rightarrow> estimator_obj"
  next_ref :: nat
  files :: "string \<rightharpoonup> pickled"
  cv_calls :: "cv_call list"

text \<open>
  The libraries the class calls and this repository does not contain, as parameters:
  \<open>joblib.load\<close> at the two types it is used at, \<open>cross_val_score\<close>, whether
  \<open>fit\<close> raises, and for each minimizer the point it evaluates next and the result
  object it builds, both from the evaluations made so far.
\<close>

type_synonym history = "(pval list \<times> real) list"

record libs =
  joblib_load_table :: "string \<Rightarrow> error + table"
  joblib_load_list :: "string \<Rightarrow> error + string list"
  cross_val_score :: "cv_call \<Rightarrow> error + real list"
  fit_raises :: "estimator_obj \<Rightarrow> table \<Rightarrow> real list \<Rightarrow> error option"
  ask :: "minimizer \<Rightarrow> dimension list \<Rightarrow> int \<Rightarrow> pval list list option \<Rightarrow> history
            \<Rightarrow> error + pval list"
  result_of :: "minimizer \<Rightarrow> dimension list \<Rightarrow> int \<Rightarrow> pval list list option \<Rightarrow> history
            \<Rightarrow> error + opt_result"

section \<open>Data preparation: \<open>__init__\<close>\<close>

datatype features_arg = Feature_list "string list" | Feature_path string

definition blank_obj :: estimator_obj where
  "blank_obj = \<lparr>ctor_of = External [], params = Map.empty, fitted = None\<rparr>"

text \<open>Lines 75 to 81: the scaler is fitted on the train features, which it replaces.\<close>

definition scale_train ::
  "(real \<Rightarrow> real) \<Rightarrow> table \<Rightarrow> string list \<Rightarrow> error + minmax \<times> table"
where
  "scale_train fl train feats =
     (case getitem_cols train feats of
        Inl e \<Rightarrow> Inl e
      | Inr sel \<Rightarrow>
          (case fit_transform fl (values_of sel) of
             Inl e \<Rightarrow> Inl e
           | Inr (scaling, Y) \<Rightarrow>
               Inr (scaling, setitem_cols train (DataFrame Y (columns sel)))))"

text \<open>Lines 84 to 88: the test features are transformed by the scaler fitted above.\<close>

definition scale_test ::
  "(real \<Rightarrow> real) \<Rightarrow> minmax \<Rightarrow> table \<Rightarrow> string list \<Rightarrow> error + table"
where
  "scale_test fl scaling test feats =
     (case getitem_cols test feats of
        Inl e \<Rightarrow> Inl e
      | Inr sel \<Rightarrow>
          (case transform fl scaling (values_of sel) of
             Inl e \<Rightarrow> Inl e
           | Inr Y \<Rightarrow> Inr (setitem_cols test (DataFrame Y (columns sel)))))"

definition load_features :: "libs \<Rightarrow> features_arg \<Rightarrow> error + string list" where
  "load_features L features =
     (case features of
        Feature_list fs \<Rightarrow> Inr fs
      | Feature_path p \<Rightarrow> joblib_load_list L p)"

definition new_object ::
  "string \<Rightarrow> table \<Rightarrow> table \<Rightarrow> string list \<Rightarrow> string \<Rightarrow> string \<Rightarrow> estimator_obj option \<Rightarrow> state"
where
  "new_object save train test feats tgt prob est =
     \<lparr>path_to_save = save, sample_train = train, sample_test = test,
      RFE_features = feats, target = tgt, problem = prob,
      estimator = (case est of None \<Rightarrow> PyNone | Some e \<Rightarrow> Obj 0),
      boosting_method = None, space = None, hyperparameters = None,
      optimization_method = None, opt = None, values_attr = None, model = None,
      heap = (case est of None \<Rightarrow> (\<lambda>r. blank_obj) | Some e \<Rightarrow> (\<lambda>r. blank_obj)(0 := e)),
      next_ref = (case est of None \<Rightarrow> 0 | Some e \<Rightarrow> 1),
      files = Map.empty, cv_calls = []\<rparr>"

text \<open>
  \<open>__init__\<close>. \<open>est\<close> is the keyword argument \<open>estimator\<close> (None when it is not given),
  \<open>fl\<close> the rounding of the machine's arithmetic.
  Nothing looks at the target column, and no column is looked up when \<open>scaled\<close> is true.
\<close>

definition init ::
  "(real \<Rightarrow> real) \<Rightarrow> libs \<Rightarrow> string \<Rightarrow> string \<Rightarrow> string \<Rightarrow> string \<Rightarrow> features_arg \<Rightarrow> bool \<Rightarrow> string
     \<Rightarrow> estimator_obj option \<Rightarrow> error + state"
where
  "init fl L path_to_train_data path_to_test_data save tgt features scaled prob est =
     (case joblib_load_table L path_to_train_data of
        Inl e \<Rightarrow> Inl e
      | Inr train \<Rightarrow>
     (case joblib_load_table L path_to_test_data of
        Inl e \<Rightarrow> Inl e
      | Inr test \<Rightarrow>
     (case load_features L features of
        Inl e \<Rightarrow> Inl e
      | Inr feats \<Rightarrow>
          if \<not> scaled then
            (case scale_train fl train feats of
               Inl e \<Rightarrow> Inl e
             | Inr (scaling, train') \<Rightarrow>
                 (case scale_test fl scaling test feats of
                    Inl e \<Rightarrow> Inl e
                  | Inr test' \<Rightarrow> Inr (new_object save train' test' feats tgt prob est)))
          else Inr (new_object save train test feats tgt prob est))))"

section \<open>Model selection: \<open>base_model\<close>\<close>

definition new_estimator :: "ctor \<Rightarrow> (string \<times> pval) list \<Rightarrow> state \<Rightarrow> state" where
  "new_estimator c kwargs s =
     s\<lparr>estimator := Obj (next_ref s),
       heap := (heap s)(next_ref s := \<lparr>ctor_of = c, params = map_of kwargs, fitted = None\<rparr>),
       next_ref := Suc (next_ref s)\<rparr>"

text \<open>
  \<open>base_model\<close>. \<open>objective'\<close> is \<open>kwargs.get('objective')\<close>, PNone when the caller gave
  none. An unrecognised problem kind or boosting family leaves \<open>self.estimator\<close> as it
  was. The XGBoost branch for regression is written as the source has it.
\<close>

definition base_model :: "string \<Rightarrow> pval \<Rightarrow> state \<Rightarrow> pyref \<times> state" where
  "base_model boosting_method' objective' s =
     (let s1 = s\<lparr>boosting_method := Some boosting_method'\<rparr>;
          s2 =
            (if problem s1 = ''classification'' then
               (if boosting_method' = ''lightGBM'' then
                  new_estimator LGBMClassifier
                    [(''boosting_type'', PStr ''gbdt''), (''objective'', objective'),
                     (''random_state'', PInt 42), (''importance_type'', PStr ''gain''),
                     (''max_depth'', PInt (- 1)), (''verbose'', PInt (- 1))] s1
                else if boosting_method' = ''XGBoost'' then
                  new_estimator XGBClassifier
                    [(''objective'', objective'), (''booster'', PStr ''gbtree''),
                     (''random_state'', PInt 42), (''importance_type'', PStr ''total_gain'')] s1
                else s1)
             else if problem s1 = ''regression'' then
               (if boosting_method' = ''lightGBM'' then
                  new_estimator LGBMRegressor
                    [(''boosting_type'', PStr ''gbdt''),
                     (''random_state'', PInt 42), (''importance_type'', PStr ''gain''),
                     (''max_depth'', PInt (- 1)), (''verbose'', PInt (- 1))] s1
                else if boosting_method' = ''XGBoost'' then
                  new_estimator XGBClassifier
                    [(''objective'', PStr ''reg:squarederror''), (''booster'', PStr ''gbtree''),
                     (''random_state'', PInt 42), (''importance_type'', PStr ''total_gain'')] s1
                else s1)
             else s1)
      in (estimator s2, s2))"

section \<open>The search space: \<open>set_hyperparameters\<close>\<close>

definition the_space :: "dimension list" where
  "the_space =
     [Real_dim (1 / 10000) 1 ''learning_rate'' ''log-uniform'',
      Integer_dim 100 3000 ''n_estimators'',
      Integer_dim 10 400 ''num_leaves'']"

definition the_hyperparameters :: "string list" where
  "the_hyperparameters = [''learning_rate'', ''n_estimators'', ''num_leaves'']"

definition set_hyperparameters :: "state \<Rightarrow> (string list \<times> dimension list) \<times> state" where
  "set_hyperparameters s =
     (let s1 = s\<lparr>space := Some the_space\<rparr>;
          s2 = s1\<lparr>hyperparameters := Some the_hyperparameters\<rparr>
      in ((the_hyperparameters, the_space), s2))"

section \<open>The search: \<open>run\<close> and its objective\<close>

definition scoring_of :: "string \<Rightarrow> string option" where
  "scoring_of prob =
     (if prob = ''classification'' then Some ''roc_auc''
      else if prob = ''regression'' then Some ''neg_root_mean_squared_error''
      else None)"

text \<open>\<open>np.mean\<close> of the fold scores (five of them; of no score at all NumPy gives NaN).\<close>

definition np_mean :: "real list \<Rightarrow> real" where
  "np_mean xs = sum_list xs / real (length xs)"

text \<open>
  The objective as the minimizer calls it, that is under \<open>@use_named_args(self.space)\<close>:
  the decorator refuses a point whose length is not the number of dimensions and pairs
  the values with the dimensions' names in order. \<open>scoring\<close> is read last among the
  arguments of \<open>cross_val_score\<close>, so an unrecognised problem kind shows only there.
\<close>

definition objective :: "libs \<Rightarrow> dimension list \<Rightarrow> pval list \<Rightarrow> state \<Rightarrow> (error + real) \<times> state" where
  "objective L dims xs s =
     (if length xs \<noteq> length dims then (Inl ValueError, s)
      else
        (case estimator s of
           PyNone \<Rightarrow> (Inl (AttributeError ''set_params''), s)
         | Obj r \<Rightarrow>
             (let s1 = s\<lparr>heap := (heap s)(r := set_params (heap s r) (zip (map dim_name dims) xs))\<rparr>
              in case getitem_cols (sample_train s1) (RFE_features s1) of
                   Inl e \<Rightarrow> (Inl e, s1)
                 | Inr X \<Rightarrow>
                (case getitem_col (sample_train s1) (target s1) of
                   Inl e \<Rightarrow> (Inl e, s1)
                 | Inr y \<Rightarrow>
                (case scoring_of (problem s1) of
                   None \<Rightarrow> (Inl (UnboundLocalError ''scoring''), s1)
                 | Some metric \<Rightarrow>
                     (let call = \<lparr>cv_estimator = heap s1 r, cv_X = X, cv_y = y, cv = 5,
                                  n_jobs = - 1, scoring = metric\<rparr>;
                          s2 = s1\<lparr>cv_calls := cv_calls s1 @ [call]\<rparr>
                      in case cross_val_score L call of
                           Inl e \<Rightarrow> (Inl e, s2)
                         | Inr scores \<Rightarrow> (Inr (- np_mean scores), s2)))))))"

text \<open>
  A minimizer evaluates \<open>func\<close> at \<open>n_calls\<close> points, one after the other, each chosen
  from the evaluations made so far, and then builds its result object. It reaches the
  object's attributes only through \<open>func\<close>.
\<close>

fun minimize_loop ::
  "libs \<Rightarrow> minimizer \<Rightarrow> dimension list \<Rightarrow> int \<Rightarrow> pval list list option
     \<Rightarrow> (pval list \<Rightarrow> state \<Rightarrow> (error + real) \<times> state) \<Rightarrow> nat \<Rightarrow> history \<Rightarrow> state
     \<Rightarrow> (error + opt_result) \<times> state"
where
  "minimize_loop L m dims n_calls x0 func 0 hist s = (result_of L m dims n_calls x0 hist, s)"
| "minimize_loop L m dims n_calls x0 func (Suc k) hist s =
     (case ask L m dims n_calls x0 hist of
        Inl e \<Rightarrow> (Inl e, s)
      | Inr p \<Rightarrow>
          (case func p s of
             (Inl e, s') \<Rightarrow> (Inl e, s')
           | (Inr y, s') \<Rightarrow> minimize_loop L m dims n_calls x0 func k (hist @ [(p, y)]) s'))"

definition minimize ::
  "libs \<Rightarrow> minimizer \<Rightarrow> (pval list \<Rightarrow> state \<Rightarrow> (error + real) \<times> state) \<Rightarrow> dimension list \<Rightarrow> int
     \<Rightarrow> pval list list option \<Rightarrow> state \<Rightarrow> (error + opt_result) \<times> state"
where
  "minimize L m func dims n_calls x0 s = minimize_loop L m dims n_calls x0 func (nat n_calls) [] s"

definition select_opt_method :: "string \<Rightarrow> minimizer option" where
  "select_opt_method name =
     (if name = ''random_search'' then Some Dummy_minimize
      else if name = ''bayesian'' then Some Gp_minimize
      else if name = ''gradient_bossted_trees'' then Some Gbrt_minimize
      else if name = ''decision_trees'' then Some Forest_minimize
      else None)"

text \<open>
  The loop of lines 236 to 238 over \<open>range(0, len(self.opt.x))\<close>: it reads
  \<open>self.hyperparameters[i]\<close> for the print and appends \<open>self.opt.x[i]\<close>.
\<close>

fun append_values :: "pval list \<Rightarrow> nat list \<Rightarrow> state \<Rightarrow> (error + unit) \<times> state" where
  "append_values ox [] s = (Inr (), s)"
| "append_values ox (i # rest) s =
     (case hyperparameters s of
        None \<Rightarrow> (Inl (AttributeError ''hyperparameters''), s)
      | Some hs \<Rightarrow>
          if i < length hs then
            (case values_attr s of
               None \<Rightarrow> (Inl (AttributeError ''values''), s)
             | Some vs \<Rightarrow> append_values ox rest (s\<lparr>values_attr := Some (vs @ [ox ! i])\<rparr>))
          else (Inl IndexError, s))"

text \<open>\<open>os.path.join\<close> of two components, as on POSIX.\<close>

definition os_path_join :: "string \<Rightarrow> string \<Rightarrow> string" where
  "os_path_join a b =
     (if b \<noteq> [] \<and> hd b = CHR ''/'' then b
      else if a = [] \<or> last a = CHR ''/'' then a @ b
      else a @ ''/'' @ b)"

definition dump :: "pickled \<Rightarrow> string \<Rightarrow> state \<Rightarrow> state" where
  "dump obj path s = s\<lparr>files := (files s)(path \<mapsto> obj)\<rparr>"

text \<open>
  \<open>run\<close>. The decorator reads \<open>self.space\<close> first. An unrecognised name binds no
  \<open>opt_method\<close>, and the call on line 224 raises when it reads that name. What is
  handed to \<open>dump\<close> on line 240 is \<open>opt_method\<close>.
\<close>

definition run :: "libs \<Rightarrow> string \<Rightarrow> int \<Rightarrow> pval list list option \<Rightarrow> state \<Rightarrow> (error + unit) \<times> state" where
  "run L optimization_method' n_calls x0 s =
     (case space s of
        None \<Rightarrow> (Inl (AttributeError ''space''), s)
      | Some dims \<Rightarrow>
          (let s1 = s\<lparr>optimization_method := Some optimization_method'\<rparr>
           in case select_opt_method optimization_method' of
                None \<Rightarrow> (Inl (UnboundLocalError ''opt_method''), s1)
              | Some opt_method \<Rightarrow>
                  (case minimize L opt_method (objective L dims) dims n_calls x0 s1 of
                     (Inl e, s2) \<Rightarrow> (Inl e, s2)
                   | (Inr res, s2) \<Rightarrow>
                       (let s3 = s2\<lparr>opt := Some res\<rparr>;
                            s4 = s3\<lparr>values_attr := Some []\<rparr>
                        in case append_values (res_x res) [0..<length (res_x res)] s4 of
                             (Inl e, s5) \<Rightarrow> (Inl e, s5)
                           | (Inr u, s5) \<Rightarrow>
                               (Inr (),
                                dump (Pickled_function opt_method)
                                  (os_path_join (path_to_save s5)
                                     (''optimization_data_'' @ target s5 @ ''.pkl'')) s5)))))"

section \<open>The trainer: \<open>train_model\<close>\<close>

text \<open>The loop of lines 325 and 326: one \<open>set_params\<close> call for each pair.\<close>

fun set_each :: "(string \<times> pval) list \<Rightarrow> state \<Rightarrow> (error + unit) \<times> state" where
  "set_each [] s = (Inr (), s)"
| "set_each ((p, v) # rest) s =
     (case model s of
        None \<Rightarrow> (Inl (AttributeError ''model''), s)
      | Some PyNone \<Rightarrow> (Inl (AttributeError ''set_params''), s)
      | Some (Obj r) \<Rightarrow>
          set_each rest (s\<lparr>heap := (heap s)(r := set_params (heap s r) [(p, v)])\<rparr>))"

text \<open>
  \<open>train_model\<close>. \<open>self.model\<close> becomes the very object \<open>self.estimator\<close> is, before
  \<open>self.hyperparameters\<close> and \<open>self.values\<close> are read for the \<open>zip\<close>. \<open>fit\<close> either
  raises or records the data on the object; as with every scikit-learn estimator it
  leaves the constructor parameters alone.
\<close>

definition train_model :: "libs \<Rightarrow> state \<Rightarrow> (error + pyref) \<times> state" where
  "train_model L s =
     (let s1 = s\<lparr>model := Some (estimator s)\<rparr>
      in case hyperparameters s1 of
           None \<Rightarrow> (Inl (AttributeError ''hyperparameters''), s1)
         | Some hs \<Rightarrow>
        (case values_attr s1 of
           None \<Rightarrow> (Inl (AttributeError ''values''), s1)
         | Some vs \<Rightarrow>
        (case set_each (zip hs vs) s1 of
           (Inl e, s2) \<Rightarrow> (Inl e, s2)
         | (Inr u, s2) \<Rightarrow>
        (case model s2 of
           None \<Rightarrow> (Inl (AttributeError ''model''), s2)
         | Some PyNone \<Rightarrow> (Inl (AttributeError ''fit''), s2)
         | Some (Obj r) \<Rightarrow>
        (case getitem_cols (sample_train s2) (RFE_features s2) of
           Inl e \<Rightarrow> (Inl e, s2)
         | Inr X \<Rightarrow>
        (case getitem_col (sample_train s2) (target s2) of
           Inl e \<Rightarrow> (Inl e, s2)
         | Inr y \<Rightarrow>
        (case fit_raises L (heap s2 r) X y of
           Some e \<Rightarrow> (Inl e, s2)
         | None \<Rightarrow>
             (Inr (Obj r),
              s2\<lparr>heap := (heap s2)(r := (heap s2 r)\<lparr>fitted := Some (X, y)\<rparr>)\<rparr>))))))))"

section \<open>A small world to run the methods in\<close>

text \<open>
  A train table and two test tables on disk, a scorer that gives every fold the score \<open>n_estimators / 1000\<close>,
  and minimizers that try \<open>n_estimators = 100, 101, ...\<close> in turn and report the point
  with the least objective value, the first one among equals.
\<close>

definition demo_train :: table where
  "demo_train = [(''a'', [0, 1, 4]), (''b'', [2, 2, 2]), (''y'', [0, 1, 1])]"

definition demo_test :: table where
  "demo_test = [(''a'', [2, 8]), (''b'', [3, 1]), (''y'', [1, 0])]"

definition demo_test2 :: table where
  "demo_test2 = [(''a'', [4, 0]), (''b'', [2, 2]), (''y'', [1, 1])]"

fun demo_best :: "history \<Rightarrow> (pval list \<times> real) \<Rightarrow> (pval list \<times> real)" where
  "demo_best [] b = b"
| "demo_best (h # hs) b = demo_best hs (if snd h < snd b then h else b)"

definition demo_libs :: libs where
  "demo_libs =
     \<lparr>joblib_load_table =
        (\<lambda>p. if p = ''train.pkl'' then Inr demo_train
             else if p = ''test.pkl'' then Inr demo_test
             else if p = ''test2.pkl'' then Inr demo_test2
             else Inl (FileNotFoundError p)),
      joblib_load_list = (\<lambda>p. Inl (FileNotFoundError p)),
      cross_val_score =
        (\<lambda>c. case params (cv_estimator c) ''n_estimators'' of
               Some (PInt n) \<Rightarrow> Inr (replicate (cv c) (real_of_int n / 1000))
             | _ \<Rightarrow> Inl (LibraryError ''n_estimators'')),
      fit_raises = (\<lambda>e X y. None),
      ask = (\<lambda>m dims n x0 hist. Inr [PReal (1 / 10), PInt (100 + int (length hist)), PInt 31]),
      result_of =
        (\<lambda>m dims n x0 hist.
           case hist of
             [] \<Rightarrow> Inl ValueError
           | h # hs \<Rightarrow>
               Inr \<lparr>res_x = fst (demo_best hs h), res_fun = snd (demo_best hs h),
                    res_x_iters = map fst hist, res_func_vals = map snd hist\<rparr>)\<rparr>"

text \<open>
  The object that \<open>__init__\<close> builds from the train table and the first test table with
  \<open>scaled=False\<close>. The numbers of the tables are small integers, and the scaler's
  operations on them give dyadic fractions that binary64 represents: nothing rounds,
  so the small world runs on \<open>exact\<close>.
\<close>

definition demo_object :: "string \<Rightarrow> state" where
  "demo_object prob =
     new_object ''out''
       [(''a'', [0, 1 / 4, 1]), (''b'', [0, 0, 0]), (''y'', [0, 1, 1])]
       [(''a'', [1 / 2, 2]), (''b'', [1, - 1]), (''y'', [1, 0])]
       [''a'', ''b''] ''y'' prob None"

text \<open>The same object after \<open>base_model('lightGBM')\<close> and \<open>set_hyperparameters()\<close>.\<close>

definition demo_ready :: "string \<Rightarrow> state" where
  "demo_ready prob = snd (set_hyperparameters (snd (base_model ''lightGBM'' PNone (demo_object prob))))"

text \<open>What a call returns, read through the reference it returns.\<close>

definition built_ctor :: "pyref \<times> state \<Rightarrow> ctor option" where
  "built_ctor p = (case fst p of PyNone \<Rightarrow> None | Obj a \<Rightarrow> Some (ctor_of (heap (snd p) a)))"

definition built_param :: "pyref \<times> state \<Rightarrow> string \<Rightarrow> pval option" where
  "built_param p k = (case fst p of PyNone \<Rightarrow> None | Obj a \<Rightarrow> params (heap (snd p) a) k)"

text \<open>The same object after one search of two calls.\<close>

definition demo_searched :: state where
  "demo_searched = snd (run demo_libs ''random_search'' 2 None (demo_ready ''regression''))"

text \<open>
  The searched object after \<open>base_model('lightGBM')\<close> has given it a second, fresh
  estimator and a search under the unrecognised name \<open>grid_search\<close> has failed.
\<close>

definition demo_stale :: state where
  "demo_stale =
     snd (run demo_libs ''grid_search'' 100 None (snd (base_model ''lightGBM'' PNone demo_searched)))"

text \<open>
  What a minimizer and the objective may change of the object: the estimators in the
  heap and the log of scorer calls, and no attribute.
\<close>

definition attrs_kept :: "state \<Rightarrow> state \<Rightarrow> bool" where
  "attrs_kept s s' = (s' = s\<lparr>heap := heap s', cv_calls := cv_calls s'\<rparr>)"

section \<open>Facts about the small world\<close>

lemma demo_init:
  "init exact demo_libs ''train.pkl'' ''test.pkl'' ''out'' ''y'' (Feature_list [''a'', ''b'']) False prob None
     = Inr (demo_object prob)"
  by (simp add: init_def demo_libs_def load_features_def scale_train_def scale_test_def
      getitem_cols_def columns_def column_def demo_train_def demo_test_def values_of_def
      fit_transform_def fit_scaler_def transform_def empty_array_def col_scale_def col_offset_def exact_def
      handle_zeros_in_scale_def DataFrame_def setitem_cols_def demo_object_def)

lemma demo_object_fields:
  "values_attr (demo_object prob) = None"
  "hyperparameters (demo_object prob) = None"
  "space (demo_object prob) = None"
  "problem (demo_object prob) = prob"
  "estimator (demo_object prob) = PyNone"
  "cv_calls (demo_object prob) = []"
  by (simp_all add: demo_object_def new_object_def)

lemma demo_ready_fields:
  "values_attr (demo_ready prob) = None"
  "hyperparameters (demo_ready prob) = Some the_hyperparameters"
  "space (demo_ready prob) = Some the_space"
  "problem (demo_ready prob) = prob"
  "cv_calls (demo_ready prob) = []"
  "path_to_save (demo_ready prob) = ''out''"
  "target (demo_ready prob) = ''y''"
  "RFE_features (demo_ready prob) = [''a'', ''b'']"
  "sample_train (demo_ready prob) =
     [(''a'', [0, 1 / 4, 1]), (''b'', [0, 0, 0]), (''y'', [0, 1, 1])]"
  by (simp_all add: demo_ready_def set_hyperparameters_def base_model_def new_estimator_def
      demo_object_def new_object_def Let_def)

section \<open>What the methods leave unchanged\<close>

lemma attrs_kept_refl: "attrs_kept s s"
  by (simp add: attrs_kept_def)

lemma attrs_kept_trans:
  assumes "attrs_kept s s'" and "attrs_kept s' s''"
  shows "attrs_kept s s''"
proof -
  from assms(1) have a: "s' = s\<lparr>heap := heap s', cv_calls := cv_calls s'\<rparr>"
    by (simp add: attrs_kept_def)
  have "s'\<lparr>heap := H, cv_calls := C\<rparr> = s\<lparr>heap := H, cv_calls := C\<rparr>" for H C
    by (subst a) simp
  with assms(2) show ?thesis
    by (simp add: attrs_kept_def)
qed

lemma objective_attrs_kept:
  "objective L dims xs s = (r, s') \<Longrightarrow> attrs_kept s s'"
  by (auto simp: objective_def attrs_kept_def Let_def
      split: if_splits pyref.splits sum.splits option.splits)

lemma minimize_loop_attrs_kept:
  "minimize_loop L m dims n x0 (objective L dims') k hist s = (r, s') \<Longrightarrow> attrs_kept s s'"
proof (induction k arbitrary: hist s)
  case 0
  then show ?case by (simp add: attrs_kept_refl)
next
  case (Suc k)
  show ?case
  proof (cases "ask L m dims n x0 hist")
    case (Inl e)
    with Suc.prems show ?thesis by (simp add: attrs_kept_refl)
  next
    case (Inr p)
    obtain o1 s1 where o: "objective L dims' p s = (o1, s1)"
      by (cases "objective L dims' p s")
    then have k1: "attrs_kept s s1" by (rule objective_attrs_kept)
    show ?thesis
    proof (cases o1)
      case (Inl e)
      with Suc.prems Inr o k1 show ?thesis by simp
    next
      case (Inr y)
      with Suc.prems \<open>ask L m dims n x0 hist = Inr p\<close> o
      have "minimize_loop L m dims n x0 (objective L dims') k (hist @ [(p, y)]) s1 = (r, s')"
        by simp
      then have "attrs_kept s1 s'" by (rule Suc.IH)
      with k1 show ?thesis by (rule attrs_kept_trans)
    qed
  qed
qed


lemma run_success:
  assumes "run L name n_calls x0 s = (Inr u, s')"
  shows "\<exists>dims m res sa.
           space s = Some dims \<and> select_opt_method name = Some m
         \<and> minimize L m (objective L dims) dims n_calls x0 (s\<lparr>optimization_method := Some name\<rparr>)
             = (Inr res, sa)
         \<and> (\<exists>ub sb. append_values (res_x res) [0..<length (res_x res)]
                (sa\<lparr>opt := Some res, values_attr := Some []\<rparr>) = (Inr ub, sb)
             \<and> s' = dump (Pickled_function m)
                  (os_path_join (path_to_save sb) (''optimization_data_'' @ target sb @ ''.pkl'')) sb)"
  using assms
  by (auto simp: run_def Let_def split: option.splits sum.splits prod.splits)

lemma append_values_keeps:
  "append_values ox js s = (r, s') \<Longrightarrow> s' = s\<lparr>values_attr := values_attr s'\<rparr>"
proof (induction js arbitrary: s)
  case Nil
  then show ?case by simp
next
  case (Cons i js)
  show ?case
  proof (cases "\<exists>hs vs. hyperparameters s = Some hs \<and> i < length hs \<and> values_attr s = Some vs")
    case True
    then obtain hs vs where h: "hyperparameters s = Some hs" "i < length hs" "values_attr s = Some vs"
      by blast
    with Cons.prems
    have "append_values ox js (s\<lparr>values_attr := Some (vs @ [ox ! i])\<rparr>) = (r, s')"
      by simp
    then have "s' = (s\<lparr>values_attr := Some (vs @ [ox ! i])\<rparr>)\<lparr>values_attr := values_attr s'\<rparr>"
      by (rule Cons.IH)
    also have "\<dots> = s\<lparr>values_attr := values_attr s'\<rparr>" by simp
    finally show ?thesis .
  next
    case False
    with Cons.prems have "s' = s"
      by (auto split: option.splits if_splits)
    then show ?thesis by simp
  qed
qed

lemma set_each_frame:
  "set_each kvs s = (r, s') \<Longrightarrow>
     s' = s\<lparr>heap := heap s'\<rparr>
   \<and> ctor_of (heap s' a) = ctor_of (heap s a)
   \<and> fitted (heap s' a) = fitted (heap s a)
   \<and> (k \<notin> fst ` set kvs \<longrightarrow> params (heap s' a) k = params (heap s a) k)"
proof (induction kvs arbitrary: s)
  case Nil
  then show ?case by simp
next
  case (Cons kv kvs)
  obtain p v where kv: "kv = (p, v)" by (cases kv)
  show ?case
  proof (cases "model s")
    case None
    with Cons.prems kv show ?thesis by simp
  next
    case (Some ref)
    show ?thesis
    proof (cases ref)
      case PyNone
      with Cons.prems kv Some show ?thesis by simp
    next
      case (Obj b)
      let ?s1 = "s\<lparr>heap := (heap s)(b := set_params (heap s b) [(p, v)])\<rparr>"
      from Cons.prems kv Some Obj have "set_each kvs ?s1 = (r, s')" by simp
      from Cons.IH [OF this] kv show ?thesis
        by (auto simp: set_params_def)
    qed
  qed
qed

text \<open>\<open>run\<close> binds \<open>self.values\<close> only once a minimizer has returned its result.\<close>

lemma run_binds_values_with_result:
  assumes "values_attr s = None" and "run L name n_calls x0 s = (r, s')"
  shows "values_attr s' = None \<or> opt s' \<noteq> None"
proof (cases "space s")
  case None
  with assms show ?thesis by (simp add: run_def)
next
  case (Some dims)
  show ?thesis
  proof (cases "select_opt_method name")
    case None
    with assms Some show ?thesis by (auto simp: run_def Let_def)
  next
    case (Some m)
    let ?s1 = "s\<lparr>optimization_method := Some name\<rparr>"
    obtain o2 s2 where mi: "minimize L m (objective L dims) dims n_calls x0 ?s1 = (o2, s2)"
      by (cases "minimize L m (objective L dims) dims n_calls x0 ?s1")
    then have "attrs_kept ?s1 s2"
      unfolding minimize_def by (rule minimize_loop_attrs_kept)
    then have s2: "s2 = ?s1\<lparr>heap := heap s2, cv_calls := cv_calls s2\<rparr>"
      by (simp add: attrs_kept_def)
    have v2: "values_attr s2 = None"
      by (subst s2) (simp add: assms(1))
    show ?thesis
    proof (cases o2)
      case (Inl e)
      with assms(2) \<open>space s = Some dims\<close> Some mi v2 show ?thesis
        by (simp add: run_def Let_def)
    next
      case (Inr res)
      let ?s4 = "s2\<lparr>opt := Some res, values_attr := Some []\<rparr>"
      obtain o5 s5 where ap: "append_values (res_x res) [0..<length (res_x res)] ?s4 = (o5, s5)"
        by (cases "append_values (res_x res) [0..<length (res_x res)] ?s4")
      from append_values_keeps [OF ap]
      have k: "s5 = ?s4\<lparr>values_attr := values_attr s5\<rparr>" .
      have "opt s5 = Some res" by (subst k) simp
      with assms(2) \<open>space s = Some dims\<close> Some mi Inr ap show ?thesis
        by (cases o5) (auto simp: run_def Let_def dump_def)
    qed
  qed
qed

lemma zip_keys_subset: "fst ` set (zip hs vs) \<subseteq> set hs"
  by (auto dest: set_zip_leftD)










section \<open>The small world after a search\<close>

lemma demo_run_fst:
  "fst (run demo_libs ''random_search'' 2 None (demo_ready ''regression'')) = Inr ()"
  by code_simp

lemma demo_run: "run demo_libs ''random_search'' 2 None (demo_ready ''regression'') = (Inr (), demo_searched)"
  using demo_run_fst by (simp add: demo_searched_def prod_eq_iff)

lemma demo_searched_hyperparameters: "hyperparameters demo_searched = Some the_hyperparameters"
  by code_simp

lemma demo_searched_best: "map_option res_x (opt demo_searched) = Some [PReal (1 / 10), PInt 101, PInt 31]"
  by code_simp


lemma demo_searched_seed: "params (heap demo_searched 0) ''random_state'' = Some (PInt 42)"
  by code_simp

lemma demo_ready_estimator:
  "estimator (demo_ready prob) = (if prob = ''classification'' \<or> prob = ''regression'' then Obj 0 else PyNone)"
  by (simp add: demo_ready_def set_hyperparameters_def base_model_def new_estimator_def
      demo_object_def new_object_def Let_def)

lemma demo_ready_heap:
  "params (heap (demo_ready ''regression'') 0) ''n_estimators'' = None"
  by (simp add: demo_ready_def set_hyperparameters_def base_model_def new_estimator_def
      demo_object_def new_object_def Let_def)

lemma demo_searched_space: "space demo_searched = Some the_space"
  by code_simp

section \<open>Tables and the scaler\<close>















lemma getitem_cols_Inr:
  assumes "getitem_cols df cols = Inr sel"
  shows "sel = map (\<lambda>c. (c, column df c)) cols \<and> set cols \<subseteq> set (columns df)"
  using assms
  by (auto simp: getitem_cols_def Let_def filter_empty_conv split: if_splits)

lemma getitem_cols_missing:
  assumes "f \<in> set cols" and "f \<notin> set (columns df)"
  shows "\<exists>cs. getitem_cols df cols = Inl (KeyError cs)"
  using assms
  by (auto simp: getitem_cols_def Let_def filter_empty_conv)

lemma transform_fitted:
  "map (\<lambda>(col, a, b). map (\<lambda>x. fl (fl (x * a) + b)) col)
     (zip (map g cols) (zip (map (\<lambda>c. col_scale fl (h c)) cols) (map (\<lambda>c. col_offset fl (h c)) cols)))
   = map (\<lambda>c. map (scale_value fl (h c)) (g c)) cols"
  by (induction cols) (simp_all add: scale_value_def)




lemma transform_Inr:
  assumes "transform fl \<lparr>scale_attr = map (\<lambda>c. col_scale fl (h c)) cols,
                       min_attr = map (\<lambda>c. col_offset fl (h c)) cols\<rparr> (map g cols) = Inr Y"
  shows "Y = map (\<lambda>c. map (scale_value fl (h c)) (g c)) cols"
proof -
  from assms have "Inr (map (\<lambda>c. map (scale_value fl (h c)) (g c)) cols) = (Inr Y :: error + real list list)"
    by (simp only: transform_def minmax.select_convs transform_fitted split: if_splits) simp_all
  then show ?thesis by simp
qed

lemma zip_keyed: "zip cols (map k cols) = map (\<lambda>c. (c, k c)) cols"
  by (induction cols) auto

lemma scale_train_Inr:
  assumes "scale_train fl train feats = Inr (sc, train')"
  shows "set feats \<subseteq> set (columns train)
       \<and> sc = \<lparr>scale_attr = map (\<lambda>c. col_scale fl (column train c)) feats,
                min_attr = map (\<lambda>c. col_offset fl (column train c)) feats\<rparr>
       \<and> train' = setitem_cols train
                    (map (\<lambda>c. (c, map (scale_value fl (column train c)) (column train c))) feats)"
proof -
  let ?sc = "\<lparr>scale_attr = map (\<lambda>c. col_scale fl (column train c)) feats,
              min_attr = map (\<lambda>c. col_offset fl (column train c)) feats\<rparr>"
  from assms obtain sel where sel: "getitem_cols train feats = Inr sel"
    by (auto simp: scale_train_def split: sum.splits)
  from getitem_cols_Inr [OF sel]
  have s: "sel = map (\<lambda>c. (c, column train c)) feats" and sub: "set feats \<subseteq> set (columns train)"
    by simp_all
  have v: "values_of sel = map (column train) feats" and c: "columns sel = feats"
    by (simp_all add: s values_of_def columns_def comp_def)
  from assms sel v c obtain Y where
    ft: "fit_transform fl (map (column train) feats) = Inr (sc, Y)"
    and t': "train' = setitem_cols train (DataFrame Y feats)"
    by (auto simp: scale_train_def split: sum.splits)
  from ft have sc: "sc = ?sc" and tr: "transform fl ?sc (map (column train) feats) = Inr Y"
    by (auto simp: fit_transform_def fit_scaler_def comp_def split: sum.splits if_splits)
  from transform_Inr [OF tr] t' have
    "train' = setitem_cols train
                (map (\<lambda>c. (c, map (scale_value fl (column train c)) (column train c))) feats)"
    by (simp add: DataFrame_def zip_keyed)
  with sub sc show ?thesis by simp
qed


lemma init_unscaled_Inr:
  assumes "init fl L ptr pte save tgt fa False prob est = Inr s"
  shows "\<exists>train test feats scaling.
           joblib_load_table L ptr = Inr train \<and> joblib_load_table L pte = Inr test
         \<and> load_features L fa = Inr feats
         \<and> scale_train fl train feats = Inr (scaling, sample_train s)
         \<and> scale_test fl scaling test feats = Inr (sample_test s)
         \<and> RFE_features s = feats"
  using assms
  by (auto simp: init_def new_object_def split: sum.splits)

lemma scale_train_Inl:
  assumes "scale_train fl train feats = Inl e"
  shows "e = ValueError \<or> (\<exists>cs. e = KeyError cs)"
  using assms
  by (auto simp: scale_train_def getitem_cols_def fit_transform_def fit_scaler_def transform_def
      Let_def split: sum.splits if_splits)

lemma demo_init2:
  "init exact demo_libs ''train.pkl'' ''test2.pkl'' ''out'' ''y'' (Feature_list [''a'', ''b'']) False prob None
     = Inr ((demo_object prob)\<lparr>sample_test := [(''a'', [1, 0]), (''b'', [0, 0]), (''y'', [1, 1])]\<rparr>)"
  by (simp add: init_def demo_libs_def load_features_def scale_train_def scale_test_def
      getitem_cols_def columns_def column_def demo_train_def demo_test2_def values_of_def
      fit_transform_def fit_scaler_def transform_def empty_array_def col_scale_def col_offset_def exact_def
      handle_zeros_in_scale_def DataFrame_def setitem_cols_def demo_object_def new_object_def)

lemma demo_loads:
  "joblib_load_table demo_libs ''train.pkl'' = Inr demo_train"
  "joblib_load_table demo_libs ''test.pkl'' = Inr demo_test"
  "joblib_load_table demo_libs ''test2.pkl'' = Inr demo_test2"
  "load_features demo_libs (Feature_list fs) = Inr fs"
  by (simp_all add: demo_libs_def load_features_def)

section \<open>Model selection\<close>

text \<open>
  C2. For a regression problem and the family \<open>XGBoost\<close>, \<open>base_model\<close> builds its
  estimator with \<open>XGBClassifier\<close>, the constructor it also uses for classification,
  and gives it the objective \<open>reg:squarederror\<close> whatever label the caller passed: the
  label is ignored, but no regressor is constructed.
\<close>

theorem base_model_XGBoost_regression:
  assumes "problem s = ''regression''" and "problem c = ''classification''"
  shows "built_ctor (base_model ''XGBoost'' label s) = Some XGBClassifier
       \<and> built_ctor (base_model ''XGBoost'' label' c) = Some XGBClassifier
       \<and> built_param (base_model ''XGBoost'' label s) ''objective'' = Some (PStr ''reg:squarederror'')"
  using assms
  by (simp add: base_model_def new_estimator_def built_ctor_def built_param_def Let_def)

theorem base_model_XGBoost_regression_witness:
  "problem (demo_object ''regression'') = ''regression''
   \<and> problem (demo_object ''classification'') = ''classification''
   \<and> built_ctor (base_model ''XGBoost'' (PStr ''binary'') (demo_object ''regression''))
       = Some XGBClassifier
   \<and> built_ctor (base_model ''XGBoost'' (PStr ''binary'') (demo_object ''classification''))
       = Some XGBClassifier
   \<and> built_ctor (base_model ''lightGBM'' (PStr ''binary'') (demo_object ''regression''))
       = Some LGBMRegressor"
proof -
  have r: "problem (demo_object ''regression'') = ''regression''"
    and c: "problem (demo_object ''classification'') = ''classification''"
    by (simp_all add: demo_object_fields)
  have "built_ctor (base_model ''lightGBM'' (PStr ''binary'') (demo_object ''regression''))
          = Some LGBMRegressor"
    by (simp add: base_model_def new_estimator_def built_ctor_def Let_def demo_object_fields)
  with r c base_model_XGBoost_regression [OF r c, of "PStr ''binary''" "PStr ''binary''"]
  show ?thesis by simp
qed

section \<open>Failing before any work\<close>

text \<open>
  C7, as stated, fails: \<open>run\<close> has no check of the name and raises no configuration
  error. The name \<open>grid_search\<close> is first stored in \<open>self.optimization_method\<close>; what is
  raised then is UnboundLocalError for the local variable \<open>opt_method\<close>. And on an object
  without \<open>self.space\<close> the recognised name \<open>random_search\<close> and the unrecognised one
  fail alike, with AttributeError for \<open>space\<close>.
\<close>

theorem run_has_no_name_check:
  "run demo_libs ''grid_search'' 100 None (demo_ready ''regression'')
     = (Inl (UnboundLocalError ''opt_method''),
        (demo_ready ''regression'')\<lparr>optimization_method := Some ''grid_search''\<rparr>)
   \<and> optimization_method (demo_ready ''regression'') = None
   \<and> select_opt_method ''random_search'' = Some Dummy_minimize
   \<and> select_opt_method ''grid_search'' = None
   \<and> run demo_libs ''random_search'' 100 None (demo_object ''regression'')
       = (Inl (AttributeError ''space''), demo_object ''regression'')
   \<and> run demo_libs ''grid_search'' 100 None (demo_object ''regression'')
       = (Inl (AttributeError ''space''), demo_object ''regression'')"
  by (simp add: run_def select_opt_method_def demo_ready_fields demo_object_fields Let_def
      demo_ready_def set_hyperparameters_def base_model_def new_estimator_def demo_object_def
      new_object_def)

text \<open>
  C7, amended. For a strategy name other than \<open>random_search\<close>, \<open>bayesian\<close>,
  \<open>gradient_bossted_trees\<close> and \<open>decision_trees\<close>, \<open>run\<close> raises before any minimizer is
  called: UnboundLocalError for \<open>opt_method\<close>, after the name has been stored in
  \<open>optimization_method\<close>, or AttributeError for \<open>self.space\<close> when
  \<open>set_hyperparameters\<close> has not run. No call reaches the scorer and no estimator is
  touched.
\<close>

theorem run_unrecognised_strategy:
  assumes "name \<notin> {''random_search'', ''bayesian'', ''gradient_bossted_trees'', ''decision_trees''}"
  shows "run L name n_calls x0 s =
           (if space s = None then (Inl (AttributeError ''space''), s)
            else (Inl (UnboundLocalError ''opt_method''), s\<lparr>optimization_method := Some name\<rparr>))
       \<and> cv_calls (snd (run L name n_calls x0 s)) = cv_calls s
       \<and> heap (snd (run L name n_calls x0 s)) = heap s"
proof -
  from assms have "select_opt_method name = None"
    by (simp add: select_opt_method_def)
  then show ?thesis
    by (cases "space s") (simp_all add: run_def Let_def)
qed

theorem run_unrecognised_strategy_witness:
  "''grid_search'' \<notin> {''random_search'', ''bayesian'', ''gradient_bossted_trees'', ''decision_trees''}
   \<and> fst (run demo_libs ''grid_search'' 100 None (demo_ready ''regression''))
       = Inl (UnboundLocalError ''opt_method'')
   \<and> cv_calls (snd (run demo_libs ''grid_search'' 100 None (demo_ready ''regression''))) = []"
proof -
  have n: "''grid_search'' \<notin> {''random_search'', ''bayesian'', ''gradient_bossted_trees'', ''decision_trees''}"
    by simp
  from run_unrecognised_strategy [OF n, of demo_libs 100 None "demo_ready ''regression''"] n
  show ?thesis by (simp add: demo_ready_fields)
qed

text \<open>
  C9, as stated, fails: \<open>train_model\<close> has no check that a search has produced a
  result for the estimator it trains. After a search, a new \<open>base_model\<close> and a search
  that failed, it sets the values of the old search on the new estimator, fits it and
  returns it. And where it does fail, on an object never searched, it has already
  rebound \<open>self.model\<close>.
\<close>

theorem train_model_uses_stale_values:
  "fst (run demo_libs ''grid_search'' 100 None (snd (base_model ''lightGBM'' PNone demo_searched)))
     = Inl (UnboundLocalError ''opt_method'')
   \<and> estimator demo_searched = Obj 0
   \<and> estimator demo_stale = Obj 1
   \<and> params (heap demo_stale 1) ''n_estimators'' = None
   \<and> fst (train_model demo_libs demo_stale) = Inr (Obj 1)
   \<and> params (heap (snd (train_model demo_libs demo_stale)) 1) ''n_estimators'' = Some (PInt 101)
   \<and> fitted (heap (snd (train_model demo_libs demo_stale)) 1)
       = Some ([(''a'', [0, 1 / 4, 1]), (''b'', [0, 0, 0])], [0, 1, 1])
   \<and> model (demo_ready ''regression'') = None
   \<and> model (snd (train_model demo_libs (demo_ready ''regression''))) = Some (Obj 0)"
  by code_simp

text \<open>
  C9, amended. While no \<open>run\<close> has bound \<open>self.values\<close>, \<open>train_model\<close> raises
  AttributeError when it reads the attributes for the \<open>zip\<close>: for \<open>hyperparameters\<close> if
  that is unbound too, for \<open>values\<close> otherwise. It has then bound \<open>self.model\<close> to the
  estimator and done nothing else: no \<open>set_params\<close> and no \<open>fit\<close> has run, so every
  estimator object is as it was.
\<close>

theorem train_model_before_run:
  assumes "values_attr s = None"
  shows "train_model L s =
           (Inl (AttributeError (if hyperparameters s = None then ''hyperparameters'' else ''values'')),
            s\<lparr>model := Some (estimator s)\<rparr>)
       \<and> heap (snd (train_model L s)) = heap s"
  using assms by (cases "hyperparameters s") (simp_all add: train_model_def Let_def)

theorem train_model_before_run_witness:
  "values_attr (demo_ready ''regression'') = None
   \<and> fst (train_model demo_libs (demo_ready ''regression'')) = Inl (AttributeError ''values'')
   \<and> fst (train_model demo_libs (demo_object ''regression'')) = Inl (AttributeError ''hyperparameters'')
   \<and> heap (snd (train_model demo_libs (demo_ready ''regression''))) = heap (demo_ready ''regression'')"
proof -
  have a: "values_attr (demo_ready ''regression'') = None"
    and b: "values_attr (demo_object ''regression'') = None"
    by (simp_all add: demo_ready_fields demo_object_fields)
  from train_model_before_run [OF a, of demo_libs] train_model_before_run [OF b, of demo_libs] a
  show ?thesis by (simp add: demo_ready_fields demo_object_fields)
qed

section \<open>The search\<close>

text \<open>
  C1. After a search that completed, the file \<open>optimization_data_<target>.pkl\<close> in the
  output directory holds the minimizer function that was selected (\<open>opt_method\<close>), not
  the result object \<open>self.opt\<close> with the evaluated points and the best vector. The file
  name is derived from the target as claimed; the content is not the search state.
\<close>

theorem run_dumps_the_minimizer:
  assumes "run L name n_calls x0 s = (Inr u, s')"
  shows "\<exists>m res. select_opt_method name = Some m \<and> opt s' = Some res
           \<and> files s' (os_path_join (path_to_save s) (''optimization_data_'' @ target s @ ''.pkl''))
               = Some (Pickled_function m)
           \<and> Pickled_function m \<noteq> Pickled_result res"
proof -
  from run_success [OF assms] obtain dims m res sa ub sb where
    sel: "select_opt_method name = Some m"
    and mi: "minimize L m (objective L dims) dims n_calls x0 (s\<lparr>optimization_method := Some name\<rparr>)
               = (Inr res, sa)"
    and ap: "append_values (res_x res) [0..<length (res_x res)]
               (sa\<lparr>opt := Some res, values_attr := Some []\<rparr>) = (Inr ub, sb)"
    and s': "s' = dump (Pickled_function m)
               (os_path_join (path_to_save sb) (''optimization_data_'' @ target sb @ ''.pkl'')) sb"
    by blast
  from mi have "attrs_kept (s\<lparr>optimization_method := Some name\<rparr>) sa"
    unfolding minimize_def by (rule minimize_loop_attrs_kept)
  then have sa: "sa = s\<lparr>optimization_method := Some name, heap := heap sa, cv_calls := cv_calls sa\<rparr>"
    by (simp add: attrs_kept_def)
  have sb: "sb = sa\<lparr>opt := Some res, values_attr := values_attr sb\<rparr>"
    using append_values_keeps [OF ap] by simp
  have "path_to_save sb = path_to_save s" "target sb = target s" "opt sb = Some res"
    by (subst sb, subst sa, simp)+
  with s' sel show ?thesis
    by (simp add: dump_def)
qed

theorem run_dumps_the_minimizer_witness:
  "run demo_libs ''random_search'' 2 None (demo_ready ''regression'') = (Inr (), demo_searched)
   \<and> files demo_searched ''out/optimization_data_y.pkl'' = Some (Pickled_function Dummy_minimize)
   \<and> map_option res_x (opt demo_searched) = Some [PReal (1 / 10), PInt 101, PInt 31]"
proof -
  from run_dumps_the_minimizer [OF demo_run] obtain m res where
    "select_opt_method ''random_search'' = Some m"
    "files demo_searched
       (os_path_join (path_to_save (demo_ready ''regression''))
          (''optimization_data_'' @ target (demo_ready ''regression'') @ ''.pkl''))
       = Some (Pickled_function m)"
    by blast
  then have "files demo_searched ''out/optimization_data_y.pkl'' = Some (Pickled_function Dummy_minimize)"
    by (simp add: select_opt_method_def demo_ready_fields os_path_join_def)
  with demo_run demo_searched_best show ?thesis by simp
qed

text \<open>
  C3. When the estimator is set, the point has one value for each dimension and the
  train table has the feature and target columns, the objective returns the negated
  mean of the five scores that \<open>cross_val_score\<close> gives for the train features and
  target with \<open>cv=5\<close>, scored by \<open>roc_auc\<close> for classification and by
  \<open>neg_root_mean_squared_error\<close> for regression, on the estimator with the point's
  values set under the dimensions' names.
\<close>

theorem objective_is_negated_mean:
  assumes "estimator s = Obj r" and "length xs = length dims"
    and "getitem_cols (sample_train s) (RFE_features s) = Inr X"
    and "getitem_col (sample_train s) (target s) = Inr y"
    and "problem s = ''classification'' \<or> problem s = ''regression''"
    and "cross_val_score L
           \<lparr>cv_estimator = set_params (heap s r) (zip (map dim_name dims) xs),
            cv_X = X, cv_y = y, cv = 5, n_jobs = - 1,
            scoring = (if problem s = ''classification'' then ''roc_auc''
                       else ''neg_root_mean_squared_error'')\<rparr> = Inr scores"
    and "length scores = 5"
  shows "fst (objective L dims xs s) = Inr (- np_mean scores)
       \<and> np_mean scores = sum_list scores / 5
       \<and> cv_calls (snd (objective L dims xs s)) = cv_calls s @
           [\<lparr>cv_estimator = set_params (heap s r) (zip (map dim_name dims) xs),
             cv_X = X, cv_y = y, cv = 5, n_jobs = - 1,
             scoring = (if problem s = ''classification'' then ''roc_auc''
                        else ''neg_root_mean_squared_error'')\<rparr>]"
  using assms
  by (auto simp: objective_def Let_def scoring_of_def np_mean_def)

theorem objective_is_negated_mean_witness:
  "estimator (demo_ready ''regression'') = Obj 0
   \<and> estimator (demo_ready ''classification'') = Obj 0
   \<and> length [PReal (1 / 10), PInt 200, PInt 31] = length the_space
   \<and> fst (objective demo_libs the_space [PReal (1 / 10), PInt 200, PInt 31] (demo_ready ''regression''))
       = Inr (- (1 / 5))
   \<and> fst (objective demo_libs the_space [PReal (1 / 10), PInt 200, PInt 31] (demo_ready ''classification''))
       = Inr (- (1 / 5))
   \<and> map scoring (cv_calls (snd (objective demo_libs the_space [PReal (1 / 10), PInt 200, PInt 31]
         (demo_ready ''regression'')))) = [''neg_root_mean_squared_error'']
   \<and> map scoring (cv_calls (snd (objective demo_libs the_space [PReal (1 / 10), PInt 200, PInt 31]
         (demo_ready ''classification'')))) = [''roc_auc'']"
proof -
  let ?xs = "[PReal (1 / 10), PInt 200, PInt 31]"
  let ?X = "[(''a'', [0, 1 / 4, 1]), (''b'', [0, 0, 0 :: real])]"
  let ?scores = "[1 / 5, 1 / 5, 1 / 5, 1 / 5, 1 / 5 :: real]"
  have n: "length ?scores = 5" by simp
  have l: "length ?xs = length the_space" by (simp add: the_space_def)
  have e: "estimator (demo_ready prob) = Obj 0"
    if "prob = ''classification'' \<or> prob = ''regression''" for prob
    using that by (auto simp: demo_ready_estimator)
  have X: "getitem_cols (sample_train (demo_ready prob)) (RFE_features (demo_ready prob)) = Inr ?X"
    for prob
    by (simp add: demo_ready_fields getitem_cols_def columns_def column_def)
  have y: "getitem_col (sample_train (demo_ready prob)) (target (demo_ready prob)) = Inr [0, 1, 1]"
    for prob
    by (simp add: demo_ready_fields getitem_col_def columns_def column_def)
  have p: "problem (demo_ready prob) = ''classification'' \<or> problem (demo_ready prob) = ''regression''"
    if "prob = ''classification'' \<or> prob = ''regression''" for prob
    using that by (simp add: demo_ready_fields)
  have c: "cross_val_score demo_libs
             \<lparr>cv_estimator = set_params (heap (demo_ready prob) 0) (zip (map dim_name the_space) ?xs),
              cv_X = ?X, cv_y = [0, 1, 1], cv = 5, n_jobs = - 1,
              scoring = (if problem (demo_ready prob) = ''classification'' then ''roc_auc''
                         else ''neg_root_mean_squared_error'')\<rparr> = Inr ?scores"
    for prob
    by (simp add: demo_libs_def set_params_def the_space_def eval_nat_numeral)
  have r: "''regression'' = ''classification'' \<or> ''regression'' = ''regression''"
    and k: "''classification'' = ''classification'' \<or> ''classification'' = ''regression''"
    by simp_all
  from objective_is_negated_mean [OF e [OF r] l X y p [OF r] c n]
    objective_is_negated_mean [OF e [OF k] l X y p [OF k] c n]
    e [OF r] e [OF k] l
  show ?thesis
    by (simp add: np_mean_def demo_ready_fields)
qed

section \<open>The trainer\<close>

text \<open>
  C10. With the hyperparameter names of \<open>set_hyperparameters\<close>, \<open>train_model\<close> leaves
  every parameter other than \<open>learning_rate\<close>, \<open>n_estimators\<close> and \<open>num_leaves\<close> as it
  was on every estimator object, and the constructor as well, whether it returns or
  raises.
\<close>

theorem train_model_keeps_baseline:
  assumes "hyperparameters s = Some the_hyperparameters"
    and "k \<notin> {''learning_rate'', ''n_estimators'', ''num_leaves''}"
  shows "params (heap (snd (train_model L s)) a) k = params (heap s a) k
       \<and> ctor_of (heap (snd (train_model L s)) a) = ctor_of (heap s a)"
proof (cases "values_attr s")
  case None
  with assms(1) show ?thesis by (simp add: train_model_def Let_def)
next
  case (Some vs)
  let ?s1 = "s\<lparr>model := Some (estimator s)\<rparr>"
  obtain r2 s2 where se: "set_each (zip the_hyperparameters vs) ?s1 = (r2, s2)"
    by (cases "set_each (zip the_hyperparameters vs) ?s1")
  from assms(2) zip_keys_subset [of the_hyperparameters vs]
  have "k \<notin> fst ` set (zip the_hyperparameters vs)"
    by (auto simp: the_hyperparameters_def)
  with set_each_frame [OF se, of a k]
  have f: "params (heap s2 a) k = params (heap s a) k" "ctor_of (heap s2 a) = ctor_of (heap s a)"
    by simp_all
  have "params (heap (snd (train_model L s)) a) k = params (heap s2 a) k
      \<and> ctor_of (heap (snd (train_model L s)) a) = ctor_of (heap s2 a)"
    using assms(1) Some se
    by (auto simp: train_model_def Let_def split: sum.splits option.splits pyref.splits)
  with f show ?thesis by simp
qed

theorem train_model_keeps_baseline_witness:
  "hyperparameters demo_searched = Some the_hyperparameters
   \<and> ''random_state'' \<notin> {''learning_rate'', ''n_estimators'', ''num_leaves''}
   \<and> params (heap (snd (train_model demo_libs demo_searched)) 0) ''random_state'' = Some (PInt 42)
   \<and> ctor_of (heap (snd (train_model demo_libs demo_searched)) 0) = LGBMRegressor"
proof -
  have k: "''random_state'' \<notin> {''learning_rate'', ''n_estimators'', ''num_leaves''}" by simp
  have c: "ctor_of (heap demo_searched 0) = LGBMRegressor" by code_simp
  from train_model_keeps_baseline [OF demo_searched_hyperparameters k, of demo_libs 0]
    demo_searched_seed c demo_searched_hyperparameters k
  show ?thesis by simp
qed



section \<open>Data preparation\<close>

text \<open>
  C4. Two constructions with \<open>scaled=False\<close> that load the same train table and
  resolve the same feature list, whatever their test tables and other arguments: when
  both complete, they hold the same transformed train table, and there is one scaler,
  the one \<open>scale_train\<close> fits on the train features, by which each test table was
  transformed. The scaler is never fitted on a test table.
\<close>

theorem scaler_fitted_on_train_only:
  assumes "init fl L1 ptr1 pte1 save1 tgt1 fa1 False prob1 est1 = Inr s1"
    and "init fl L2 ptr2 pte2 save2 tgt2 fa2 False prob2 est2 = Inr s2"
    and "joblib_load_table L1 ptr1 = joblib_load_table L2 ptr2"
    and "load_features L1 fa1 = load_features L2 fa2"
  shows "sample_train s1 = sample_train s2
       \<and> (\<exists>train feats scaling test1 test2.
             joblib_load_table L1 ptr1 = Inr train \<and> load_features L1 fa1 = Inr feats
           \<and> joblib_load_table L1 pte1 = Inr test1 \<and> joblib_load_table L2 pte2 = Inr test2
           \<and> scale_train fl train feats = Inr (scaling, sample_train s1)
           \<and> scale_test fl scaling test1 feats = Inr (sample_test s1)
           \<and> scale_test fl scaling test2 feats = Inr (sample_test s2))"
proof -
  from init_unscaled_Inr [OF assms(1)] obtain train test1 feats scaling where
    a: "joblib_load_table L1 ptr1 = Inr train" "joblib_load_table L1 pte1 = Inr test1"
       "load_features L1 fa1 = Inr feats"
       "scale_train fl train feats = Inr (scaling, sample_train s1)"
       "scale_test fl scaling test1 feats = Inr (sample_test s1)"
    by blast
  from init_unscaled_Inr [OF assms(2)] obtain train' test2 feats' scaling' where
    b: "joblib_load_table L2 ptr2 = Inr train'" "joblib_load_table L2 pte2 = Inr test2"
       "load_features L2 fa2 = Inr feats'"
       "scale_train fl train' feats' = Inr (scaling', sample_train s2)"
       "scale_test fl scaling' test2 feats' = Inr (sample_test s2)"
    by blast
  from a b assms(3,4) have same: "train' = train" "feats' = feats" by simp_all
  with a(4) b(4) have eq: "scaling' = scaling" "sample_train s2 = sample_train s1" by simp_all
  with a b same show ?thesis by auto
qed

theorem scaler_fitted_on_train_only_witness:
  "init exact demo_libs ''train.pkl'' ''test.pkl'' ''out'' ''y'' (Feature_list [''a'', ''b'']) False
      ''regression'' None = Inr (demo_object ''regression'')
   \<and> init exact demo_libs ''train.pkl'' ''test2.pkl'' ''out'' ''y'' (Feature_list [''a'', ''b'']) False
      ''regression'' None
       = Inr ((demo_object ''regression'')
               \<lparr>sample_test := [(''a'', [1, 0]), (''b'', [0, 0]), (''y'', [1, 1])]\<rparr>)
   \<and> demo_test \<noteq> demo_test2
   \<and> sample_train (demo_object ''regression'')
       = sample_train ((demo_object ''regression'')
               \<lparr>sample_test := [(''a'', [1, 0]), (''b'', [0, 0]), (''y'', [1, 1])]\<rparr>)"
proof -
  have d: "demo_test \<noteq> demo_test2" by (simp add: demo_test_def demo_test2_def)
  from scaler_fitted_on_train_only [OF demo_init demo_init2 refl refl, of "''regression''" "''regression''"]
    demo_init [of "''regression''"] demo_init2 [of "''regression''"] d
  show ?thesis by simp
qed




text \<open>
  C8, as stated, fails: with \<open>scaled=True\<close> no column is looked up, so a feature list
  and a target that name no column are accepted; and with \<open>scaled=False\<close> the target
  column is still not looked up.
\<close>

theorem init_accepts_absent_columns:
  "''zz'' \<notin> set (columns demo_train) \<and> ''zz'' \<notin> set (columns demo_test)
   \<and> ''nope'' \<notin> set (columns demo_train) \<and> ''nope'' \<notin> set (columns demo_test)
   \<and> init exact demo_libs ''train.pkl'' ''test.pkl'' ''out'' ''nope'' (Feature_list [''zz'']) True
       ''regression'' None
       = Inr (new_object ''out'' demo_train demo_test [''zz''] ''nope'' ''regression'' None)
   \<and> init exact demo_libs ''train.pkl'' ''test.pkl'' ''out'' ''nope'' (Feature_list [''a'', ''b'']) False
       ''regression'' None
       = Inr ((demo_object ''regression'')\<lparr>target := ''nope''\<rparr>)"
  by (simp add: init_def demo_libs_def load_features_def scale_train_def scale_test_def
      getitem_cols_def columns_def column_def demo_train_def demo_test_def values_of_def
      fit_transform_def fit_scaler_def transform_def empty_array_def col_scale_def col_offset_def exact_def
      handle_zeros_in_scale_def DataFrame_def setitem_cols_def demo_object_def new_object_def)

text \<open>
  C8, amended. When the tables and the feature list load and \<open>scaled\<close> is false,
  construction fails whenever a feature is absent from the train table or from the test
  table, with the KeyError of the column selection (or the scaler's ValueError for an
  empty train selection); when \<open>scaled\<close> is true it succeeds and keeps the tables as
  loaded. The target column is not examined.
\<close>

theorem init_fails_on_absent_feature:
  assumes "joblib_load_table L ptr = Inr train" and "joblib_load_table L pte = Inr test"
    and "load_features L fa = Inr feats"
    and "f \<in> set feats" and "f \<notin> set (columns train) \<or> f \<notin> set (columns test)"
  shows "(\<exists>e. init fl L ptr pte save tgt fa False prob est = Inl e
              \<and> (e = ValueError \<or> (\<exists>cs. e = KeyError cs)))
       \<and> init fl L ptr pte save tgt fa True prob est
           = Inr (new_object save train test feats tgt prob est)"
proof -
  have "\<exists>e. init fl L ptr pte save tgt fa False prob est = Inl e
              \<and> (e = ValueError \<or> (\<exists>cs. e = KeyError cs))"
  proof (cases "scale_train fl train feats")
    case (Inl e)
    with assms(1-3) scale_train_Inl [OF Inl] show ?thesis
      by (simp add: init_def)
  next
    case (Inr p)
    obtain scaling train' where p: "p = (scaling, train')" by (cases p)
    from scale_train_Inr [of fl train feats scaling train'] Inr p
    have "set feats \<subseteq> set (columns train)" by simp
    with assms(4,5) have "f \<notin> set (columns test)" by auto
    from getitem_cols_missing [OF assms(4) this] obtain cs where
      "getitem_cols test feats = Inl (KeyError cs)" by blast
    then have "scale_test fl scaling test feats = Inl (KeyError cs)"
      by (simp add: scale_test_def)
    with assms(1-3) Inr p show ?thesis
      by (simp add: init_def)
  qed
  moreover have "init fl L ptr pte save tgt fa True prob est
           = Inr (new_object save train test feats tgt prob est)"
    using assms(1-3) by (simp add: init_def)
  ultimately show ?thesis by simp
qed

theorem init_fails_on_absent_feature_witness:
  "joblib_load_table demo_libs ''train.pkl'' = Inr demo_train
   \<and> joblib_load_table demo_libs ''test.pkl'' = Inr demo_test
   \<and> load_features demo_libs (Feature_list [''a'', ''zz'']) = Inr [''a'', ''zz'']
   \<and> ''zz'' \<in> set [''a'', ''zz''] \<and> ''zz'' \<notin> set (columns demo_train)
   \<and> init exact demo_libs ''train.pkl'' ''test.pkl'' ''out'' ''y'' (Feature_list [''a'', ''zz'']) False
       ''regression'' None = Inl (KeyError [''zz''])
   \<and> init exact demo_libs ''train.pkl'' ''test.pkl'' ''out'' ''y'' (Feature_list [''a'', ''zz'']) True
       ''regression'' None
       = Inr (new_object ''out'' demo_train demo_test [''a'', ''zz''] ''y'' ''regression'' None)"
proof -
  have m: "''zz'' \<in> set [''a'', ''zz'']" by simp
  have a: "''zz'' \<notin> set (columns demo_train)" by (simp add: columns_def demo_train_def)
  then have d: "''zz'' \<notin> set (columns demo_train) \<or> ''zz'' \<notin> set (columns demo_test)" by simp
  have k: "init exact demo_libs ''train.pkl'' ''test.pkl'' ''out'' ''y'' (Feature_list [''a'', ''zz'']) False
       ''regression'' None = Inl (KeyError [''zz''])"
    by (simp add: init_def demo_loads scale_train_def getitem_cols_def columns_def demo_train_def)
  from init_fails_on_absent_feature [OF demo_loads(1) demo_loads(2) demo_loads(4) m d,
      of exact "''out''" "''y''" "''regression''" None]
    demo_loads m a k
  show ?thesis by simp
qed

end
